theory Spec2Isabelle
  imports Main
begin

section \<open>JavaScript numbers and strings, as far as the modelled code uses them\<close>

text \<open>
  Every number the modelled functions handle is a whole number (time values in
  milliseconds, results of \<^verbatim>\<open>Math.floor\<close> and of truncating differences), so a
  JavaScript \<^verbatim>\<open>number\<close> is an \<open>int\<close> here. \<^verbatim>\<open>NaN\<close> (an unparseable deadline) and
  fractions are outside this model.
\<close>

definition js_trunc_div :: "int \<Rightarrow> int \<Rightarrow> int" where
  \<comment> \<open>\<^verbatim>\<open>Math.trunc(a / b)\<close>: the quotient rounded towards zero.\<close>
  "js_trunc_div a b = sgn a * sgn b * (\<bar>a\<bar> div \<bar>b\<bar>)"

definition js_floor_div :: "int \<Rightarrow> int \<Rightarrow> int" where
  \<comment> \<open>\<^verbatim>\<open>Math.floor(a / b)\<close>: the quotient rounded towards minus infinity.\<close>
  "js_floor_div a b = a div b"

definition js_rem :: "int \<Rightarrow> int \<Rightarrow> int" where
  \<comment> \<open>\<^verbatim>\<open>a % b\<close>: the remainder takes the sign of the dividend.\<close>
  "js_rem a b = sgn a * (\<bar>a\<bar> mod \<bar>b\<bar>)"

definition digit :: "nat \<Rightarrow> char" where
  "digit n = ''0123456789'' ! n"

function string_of_nat :: "nat \<Rightarrow> string" where
  "string_of_nat n =
     (if n < 10 then [digit n] else string_of_nat (n div 10) @ [digit (n mod 10)])"
  by pat_completeness auto
termination
  by (relation "measure id") auto

declare string_of_nat.simps [simp del]

definition toString :: "int \<Rightarrow> string" where
  \<comment> \<open>What a template literal \<^verbatim>\<open>${n}\<close> prints for a whole number \<open>n\<close>.\<close>
  "toString n = (if n < 0 then ''-'' @ string_of_nat (nat (- n)) else string_of_nat (nat n))"

section \<open>Time remaining until a deadline (src/utils/timeUtils.ts)\<close>

record TimeRemaining =
  days :: int
  hours :: int
  minutes :: int
  seconds :: int
  isOverdue :: bool
  totalMinutes :: int

text \<open>
  The functions of date-fns the file imports, on time values in milliseconds since the
  epoch. \<open>isPast\<close> compares with a clock reading of its own (\<^verbatim>\<open>Date.now()\<close>), which
  is the argument \<open>clock\<close>; the differences truncate towards zero.
\<close>

definition isPast :: "int \<Rightarrow> int \<Rightarrow> bool" where
  "isPast clock date = (date < clock)"

definition differenceInMinutes :: "int \<Rightarrow> int \<Rightarrow> int" where
  "differenceInMinutes dateLeft dateRight = js_trunc_div (dateLeft - dateRight) 60000"

definition differenceInSeconds :: "int \<Rightarrow> int \<Rightarrow> int" where
  "differenceInSeconds dateLeft dateRight = js_trunc_div (dateLeft - dateRight) 1000"

text \<open>
  \<open>calculateTimeRemaining now clock deadlineDate\<close>: \<open>now\<close> is the value of
  \<^verbatim>\<open>new Date()\<close> in the first line of the function, \<open>clock\<close> the later reading that
  \<open>isPast\<close> takes, \<open>deadlineDate\<close> the time value of the parsed deadline string.
\<close>

definition calculateTimeRemaining :: "int \<Rightarrow> int \<Rightarrow> int \<Rightarrow> TimeRemaining" where
  "calculateTimeRemaining now clock deadlineDate =
     (if isPast clock deadlineDate then
        \<lparr>days = 0, hours = 0, minutes = 0, seconds = 0, isOverdue = True, totalMinutes = 0\<rparr>
      else
        let totalMinutes = differenceInMinutes deadlineDate now;
            days = js_floor_div totalMinutes (24 * 60);
            hours = js_floor_div (js_rem totalMinutes (24 * 60)) 60;
            minutes = js_rem totalMinutes 60;
            seconds = js_rem (differenceInSeconds deadlineDate now) 60
        in \<lparr>days = days, hours = hours, minutes = minutes, seconds = seconds,
            isOverdue = False, totalMinutes = totalMinutes\<rparr>)"

definition formatTimeRemaining :: "TimeRemaining \<Rightarrow> string" where
  "formatTimeRemaining timeRemaining =
     (if isOverdue timeRemaining then ''Overdue''
      else if days timeRemaining > 0 then
        (if days timeRemaining = 1
         then toString (hours timeRemaining) @ ''h '' @ toString (minutes timeRemaining) @ ''m''
         else toString (days timeRemaining) @ ''d '' @ toString (hours timeRemaining) @ ''h'')
      else if hours timeRemaining > 0
        then toString (hours timeRemaining) @ ''h '' @ toString (minutes timeRemaining) @ ''m''
      else if minutes timeRemaining > 0
        then toString (minutes timeRemaining) @ ''m '' @ toString (seconds timeRemaining) @ ''s''
      else toString (seconds timeRemaining) @ ''s'')"

definition getTimeUrgencyColor :: "TimeRemaining \<Rightarrow> string" where
  "getTimeUrgencyColor timeRemaining =
     (if isOverdue timeRemaining then ''text-red-500''
      else if totalMinutes timeRemaining \<le> 60 then ''text-red-500''
      else if totalMinutes timeRemaining \<le> 24 * 60 then ''text-orange-500''
      else if totalMinutes timeRemaining \<le> 3 * 24 * 60 then ''text-yellow-600''
      else ''text-green-600'')"

text \<open>
  The formatting policy in the words of the specification, to compare with
  \<open>formatTimeRemaining\<close>: the cases are told apart by \<open>days = 1\<close>, \<open>days > 1\<close>,
  \<open>days = 0\<close> with \<open>hours \<ge> 1\<close>, \<open>days = hours = 0\<close> with \<open>minutes \<ge> 1\<close>, and
  everything else prints the seconds.
\<close>

definition formatTimeRemaining_spec :: "TimeRemaining \<Rightarrow> string" where
  "formatTimeRemaining_spec t =
     (if isOverdue t then ''Overdue''
      else if days t = 1 then toString (hours t) @ ''h '' @ toString (minutes t) @ ''m''
      else if days t > 1 then toString (days t) @ ''d '' @ toString (hours t) @ ''h''
      else if days t = 0 \<and> hours t \<ge> 1
        then toString (hours t) @ ''h '' @ toString (minutes t) @ ''m''
      else if days t = 0 \<and> hours t = 0 \<and> minutes t \<ge> 1
        then toString (minutes t) @ ''m '' @ toString (seconds t) @ ''s''
      else toString (seconds t) @ ''s'')"

section \<open>Calendar dates of a time value\<close>

text \<open>
  A \<^verbatim>\<open>Date\<close> is its time value: milliseconds since 1970-01-01T00:00:00Z. The
  fields of a date are those of the proleptic Gregorian calendar, as ECMAScript
  defines them; \<open>civil_from_days\<close> computes year, month (1 to 12) and day of the
  month from the number of whole days since the epoch.
\<close>

definition civil_from_days :: "int \<Rightarrow> int \<times> int \<times> int" where
  "civil_from_days z =
     (let z' = z + 719468;
          era = z' div 146097;
          doe = z' mod 146097;
          yoe = (doe - doe div 1460 + doe div 36524 - doe div 146096) div 365;
          doy = doe - (365 * yoe + yoe div 4 - yoe div 100);
          mp = (5 * doy + 2) div 153;
          d = doy - (153 * mp + 2) div 5 + 1;
          m = (if mp < 10 then mp + 3 else mp - 9);
          y = yoe + era * 400 + (if m \<le> 2 then 1 else 0)
      in (y, m, d))"

definition padStart :: "nat \<Rightarrow> string \<Rightarrow> string" where
  \<comment> \<open>\<^verbatim>\<open>s.padStart(n, '0')\<close>\<close>
  "padStart n s = replicate (n - length s) CHR ''0'' @ s"

definition toISOString :: "int \<Rightarrow> string" where
  \<comment> \<open>\<^verbatim>\<open>Date.prototype.toISOString\<close>: the fields of the time value in UTC.\<close>
  "toISOString t =
     (let (y, m, d) = civil_from_days (t div 86400000);
          msInDay = t mod 86400000;
          year = (if 0 \<le> y \<and> y \<le> 9999 then padStart 4 (string_of_nat (nat y))
                  else (if y < 0 then ''-'' else ''+'') @ padStart 6 (string_of_nat (nat \<bar>y\<bar>)))
      in year @ ''-'' @ padStart 2 (string_of_nat (nat m))
           @ ''-'' @ padStart 2 (string_of_nat (nat d))
           @ ''T'' @ padStart 2 (string_of_nat (nat (msInDay div 3600000)))
           @ '':'' @ padStart 2 (string_of_nat (nat (msInDay div 60000 mod 60)))
           @ '':'' @ padStart 2 (string_of_nat (nat (msInDay div 1000 mod 60)))
           @ ''.'' @ padStart 3 (string_of_nat (nat (msInDay mod 1000)))
           @ ''Z'')"

definition split_first :: "char \<Rightarrow> string \<Rightarrow> string" where
  \<comment> \<open>\<^verbatim>\<open>s.split(sep)[0]\<close>: the text before the first separator.\<close>
  "split_first sep s = takeWhile (\<lambda>c. c \<noteq> sep) s"

definition format_yyyy_MM_dd :: "int \<Rightarrow> int \<Rightarrow> string" where
  \<comment> \<open>date-fns \<^verbatim>\<open>format(date, 'yyyy-MM-dd')\<close>: the fields of the date in the client's
     local time. \<open>timezoneOffset\<close> is \<^verbatim>\<open>getTimezoneOffset()\<close>, the minutes from local
     time to UTC (300 in New York in winter).\<close>
  "format_yyyy_MM_dd t timezoneOffset =
     (let (y, m, d) = civil_from_days ((t - timezoneOffset * 60000) div 86400000);
          year = (if y > 0 then y else 1 - y)
      in padStart 4 (string_of_nat (nat year))
           @ ''-'' @ padStart 2 (string_of_nat (nat m))
           @ ''-'' @ padStart 2 (string_of_nat (nat d)))"

section \<open>The habits page (src/pages/HabitsPage.tsx)\<close>

subsection \<open>Today\<close>

definition today :: "int \<Rightarrow> string" where
  \<comment> \<open>\<^verbatim>\<open>new Date().toISOString().split('T')[0]\<close>, with \<open>now\<close> the value of
     \<^verbatim>\<open>new Date()\<close> when the page renders.\<close>
  "today now = split_first CHR ''T'' (toISOString now)"

definition HabitCard_today :: "int \<Rightarrow> int \<Rightarrow> string" where
  \<comment> \<open>src/components/habits/HabitCard.tsx: \<^verbatim>\<open>format(new Date(), 'yyyy-MM-dd')\<close>\<close>
  "HabitCard_today now timezoneOffset = format_yyyy_MM_dd now timezoneOffset"

subsection \<open>The cached completions of today\<close>

text \<open>
  A \<^verbatim>\<open>HabitCompletion\<close> object. Only \<open>completed\<close> is present in every object
  the page builds; a field that an object lacks is \<open>None\<close>.
\<close>

record HabitCompletion =
  id_c :: "string option"
  habitId_c :: "string option"
  date :: "string option"
  completed :: bool
  value_c :: "int option"
  notes_c :: "string option"
  createdAt :: "string option"

text \<open>
  An item of the cached list: \<^verbatim>\<open>{habitId, completion}\<close>, where \<open>completion\<close>
  is undefined (\<open>None\<close>) when the server has no completion of the habit for today.
\<close>

record item =
  habitId :: string
  completion :: "HabitCompletion option"

text \<open>
  The query cache, restricted to the keys \<^verbatim>\<open>['all-habit-completions', date]\<close>
  and indexed by the date. \<open>None\<close> is \<^verbatim>\<open>undefined\<close>: no data under the key.
  \<open>setQueryData\<close> comes in the two forms the page calls: with a new value, and with
  an updater function, whose result \<^verbatim>\<open>undefined\<close> leaves the cache as it is.
\<close>

type_synonym query_cache = "string \<Rightarrow> item list option"

definition getQueryData :: "query_cache \<Rightarrow> string \<Rightarrow> item list option" where
  "getQueryData cache key = cache key"

definition setQueryData :: "query_cache \<Rightarrow> string \<Rightarrow> item list \<Rightarrow> query_cache" where
  "setQueryData cache key data = cache(key := Some data)"

definition setQueryData_updater ::
  "query_cache \<Rightarrow> string \<Rightarrow> (item list option \<Rightarrow> item list option) \<Rightarrow> query_cache" where
  "setQueryData_updater cache key updater =
     (case updater (cache key) of None \<Rightarrow> cache | Some data \<Rightarrow> cache(key := Some data))"

subsection \<open>The completion mutation\<close>

definition spread_completed :: "HabitCompletion option \<Rightarrow> bool \<Rightarrow> HabitCompletion" where
  \<comment> \<open>\<^verbatim>\<open>{...item.completion, completed}\<close>; spreading \<^verbatim>\<open>undefined\<close> adds no field.\<close>
  "spread_completed c completed' =
     (case c of
        None \<Rightarrow> \<lparr>id_c = None, habitId_c = None, date = None, completed = completed',
                  value_c = None, notes_c = None, createdAt = None\<rparr>
      | Some c' \<Rightarrow> c'\<lparr>completed := completed'\<rparr>)"

definition optimisticUpdate ::
  "string \<Rightarrow> string \<Rightarrow> bool \<Rightarrow> item list option \<Rightarrow> item list option" where
  \<comment> \<open>The updater that \<open>onMutate\<close> passes to \<open>setQueryData\<close>.\<close>
  "optimisticUpdate today' habitId' completed' old =
     (case old of
        None \<Rightarrow> None
      | Some old' \<Rightarrow>
          let updatedCompletions =
                map (\<lambda>item. if habitId item = habitId'
                       then item\<lparr>completion := Some (spread_completed (completion item) completed')\<rparr>
                       else item) old'
          in if find (\<lambda>item. habitId item = habitId') old' = None
             then Some (updatedCompletions @
                    [\<lparr>habitId = habitId',
                      completion = Some \<lparr>id_c = None, habitId_c = None, date = Some today',
                        completed = completed', value_c = None, notes_c = None,
                        createdAt = None\<rparr>\<rparr>])
             else Some updatedCompletions)"

text \<open>What the mutation does that is visible outside the cache, in the order it happens.\<close>

datatype action =
    CancelQueries string
  | Confetti
  | CompleteHabit string string bool
      \<comment> \<open>\<^verbatim>\<open>api.completeHabit(habitId, {date, completed})\<close>: the request sent\<close>
  | InvalidateQueries "string list"

fun isRequest :: "action \<Rightarrow> bool" where
  "isRequest (CompleteHabit h d c) = True"
| "isRequest a = False"

definition triggerConfetti :: "action list" where
  "triggerConfetti = [Confetti]"

definition mutationFn :: "string \<Rightarrow> string \<Rightarrow> bool \<Rightarrow> action" where
  "mutationFn today' habitId' completed' = CompleteHabit habitId' today' completed'"

record mutation_context =
  previousCompletions :: "item list option"

definition onMutate ::
  "string \<Rightarrow> string \<Rightarrow> bool \<Rightarrow> query_cache \<Rightarrow> query_cache \<times> action list \<times> mutation_context" where
  "onMutate today' habitId' completed' cache =
     (let previousCompletions' = getQueryData cache today';
          cache' = setQueryData_updater cache today' (optimisticUpdate today' habitId' completed')
      in (cache',
          [CancelQueries today'] @ (if completed' then triggerConfetti else []),
          \<lparr>previousCompletions = previousCompletions'\<rparr>))"

definition onError :: "string \<Rightarrow> mutation_context option \<Rightarrow> query_cache \<Rightarrow> query_cache" where
  \<comment> \<open>\<^verbatim>\<open>if (context?.previousCompletions)\<close>: an array, even an empty one, is truthy.\<close>
  "onError today' context cache =
     (case context of
        None \<Rightarrow> cache
      | Some ctx \<Rightarrow>
          (case previousCompletions ctx of
             None \<Rightarrow> cache
           | Some previous \<Rightarrow> setQueryData cache today' previous))"

definition onSettled :: "string \<Rightarrow> action list" where
  "onSettled today' =
     [InvalidateQueries [''all-habit-completions'', today'],
      InvalidateQueries [''habits''],
      InvalidateQueries [''stats'']]"

text \<open>
  One run of the mutation, in the order the query library calls the handlers:
  \<open>onMutate\<close>, then \<open>mutationFn\<close>, then \<open>onError\<close> if the request is rejected, then
  \<open>onSettled\<close>. \<open>inflight\<close> is whatever other code does to the cache while the
  request is under way.
\<close>

datatype outcome = Resolved | Rejected

definition mutate ::
  "string \<Rightarrow> string \<Rightarrow> bool \<Rightarrow> outcome \<Rightarrow> (query_cache \<Rightarrow> query_cache) \<Rightarrow> query_cache
     \<Rightarrow> query_cache \<times> action list" where
  "mutate today' habitId' completed' result inflight cache =
     (let (cache1, actions1, context) = onMutate today' habitId' completed' cache;
          request = mutationFn today' habitId' completed';
          cache2 = inflight cache1;
          cache3 = (case result of
                      Rejected \<Rightarrow> onError today' (Some context) cache2
                    | Resolved \<Rightarrow> cache2)
      in (cache3, actions1 @ [request] @ onSettled today'))"

section \<open>The API client (lib/api.ts, class ApiClient)\<close>

text \<open>
  The state the client works on: its own fields, and the browser's local storage.
  \<open>localStorage = None\<close> is a storage whose every access throws; the client catches
  that and goes on.
\<close>

record client =
  baseUrl :: string
  token :: "string option"
  localStorage :: "(string \<rightharpoonup> string) option"

definition removeToken :: "client \<Rightarrow> client" where
  "removeToken c =
     c\<lparr>token := None,
       localStorage := (case localStorage c of
                          None \<Rightarrow> None
                        | Some items \<Rightarrow> Some (items(''auth_token'' := None)))\<rparr>"

text \<open>
  The part of \<^verbatim>\<open>RequestInit\<close> the client's methods pass, the request handed to
  \<^verbatim>\<open>fetch\<close>, and the response: its status and the result of \<^verbatim>\<open>response.json()\<close>
  (\<open>None\<close> when the body is not JSON).
\<close>

record request_options =
  method_o :: "string option"
  headers_o :: "(string \<rightharpoonup> string) option"
  body_o :: "string option"

record http_request =
  url :: string
  config_headers :: "string \<rightharpoonup> string"
  config_method :: "string option"
  config_body :: "string option"

record 'a json_data =
  message :: "string option"
  content :: "'a option"

record 'a response =
  status :: nat
  json :: "'a json_data option"

definition ok :: "'a response \<Rightarrow> bool" where
  "ok response = (200 \<le> status response \<and> status response \<le> 299)"

text \<open>
  What \<open>request\<close> throws: the rejection of \<^verbatim>\<open>fetch\<close> itself, passed on, or
  \<^verbatim>\<open>new Error(message)\<close>.
\<close>

datatype error = FetchRejected | Error string

definition request_config :: "client \<Rightarrow> string \<Rightarrow> request_options \<Rightarrow> http_request" where
  \<comment> \<open>\<^verbatim>\<open>url\<close> and \<^verbatim>\<open>config\<close>: \<^verbatim>\<open>...options\<close> comes after \<^verbatim>\<open>headers\<close>, so headers
     given in the options replace the merged ones.\<close>
  "request_config c endpoint options =
     \<lparr>url = baseUrl c @ endpoint,
      config_headers =
        (case headers_o options of
           Some h \<Rightarrow> h
         | None \<Rightarrow>
             [''Content-Type'' \<mapsto> ''application/json''] ++
             (case token c of
                None \<Rightarrow> Map.empty
              | Some t \<Rightarrow> if t = [] then Map.empty
                          else [''Authorization'' \<mapsto> ''Bearer '' @ t])),
      config_method = method_o options,
      config_body = body_o options\<rparr>"

text \<open>
  \<open>request c fetch endpoint options\<close> returns the client after the call and what the
  call threw (\<open>Inl\<close>) or returned (\<open>Inr\<close>). \<open>fetch\<close> stands for the network.
\<close>

definition request ::
  "client \<Rightarrow> (http_request \<Rightarrow> 'a response option) \<Rightarrow> string \<Rightarrow> request_options
     \<Rightarrow> client \<times> (error + 'a json_data)" where
  "request c fetch endpoint options =
     (case fetch (request_config c endpoint options) of
        None \<Rightarrow> (c, Inl FetchRejected)
      | Some response \<Rightarrow>
          let data = (case json response of
                        Some d \<Rightarrow> d
                      | None \<Rightarrow> \<lparr>message = Some ''Server error'', content = None\<rparr>)
          in if \<not> ok response then
               let c' = (if status response = 401 \<or> status response = 403
                         then removeToken c else c)
               in (c', Inl (Error (case message data of
                                     None \<Rightarrow> ''An error occurred''
                                   | Some m \<Rightarrow> if m = [] then ''An error occurred'' else m)))
             else (c, Inr data))"

section \<open>Properties of the time utilities\<close>

lemma js_trunc_div_nonneg: "0 \<le> a \<Longrightarrow> 0 < b \<Longrightarrow> js_trunc_div a b = a div b"
  by (cases "a = 0") (simp_all add: js_trunc_div_def)

lemma js_rem_nonneg: "0 \<le> a \<Longrightarrow> 0 < b \<Longrightarrow> js_rem a b = a mod b"
  by (cases "a = 0") (simp_all add: js_rem_def)

lemma string_of_nat_not_Nil: "string_of_nat n \<noteq> []"
  by (subst string_of_nat.simps) simp

lemma toString_not_Nil: "toString n \<noteq> []"
  by (simp add: toString_def string_of_nat_not_Nil)

text \<open>
  Claim C4. Whenever the deadline lies strictly before the evaluation time (the reading
  \<open>now\<close>, or the reading \<open>clock\<close> that \<open>isPast\<close> takes after it),
  \<open>calculateTimeRemaining\<close> returns \<open>isOverdue = True\<close> and zero days, hours,
  minutes, seconds and total minutes.
\<close>

theorem calculateTimeRemaining_past:
  assumes "now \<le> clock" and "deadlineDate < now \<or> deadlineDate < clock"
  shows "isOverdue (calculateTimeRemaining now clock deadlineDate) = True
    \<and> days (calculateTimeRemaining now clock deadlineDate) = 0
    \<and> hours (calculateTimeRemaining now clock deadlineDate) = 0
    \<and> minutes (calculateTimeRemaining now clock deadlineDate) = 0
    \<and> seconds (calculateTimeRemaining now clock deadlineDate) = 0
    \<and> totalMinutes (calculateTimeRemaining now clock deadlineDate) = 0"
proof -
  from assms have "isPast clock deadlineDate"
    by (auto simp: isPast_def)
  then show ?thesis
    by (simp add: calculateTimeRemaining_def)
qed

theorem calculateTimeRemaining_past_witness:
  "isOverdue (calculateTimeRemaining 36000000 36000005 32400000) = True
    \<and> days (calculateTimeRemaining 36000000 36000005 32400000) = 0
    \<and> hours (calculateTimeRemaining 36000000 36000005 32400000) = 0
    \<and> minutes (calculateTimeRemaining 36000000 36000005 32400000) = 0
    \<and> seconds (calculateTimeRemaining 36000000 36000005 32400000) = 0
    \<and> totalMinutes (calculateTimeRemaining 36000000 36000005 32400000) = 0"
  using calculateTimeRemaining_past [of 36000000 36000005 32400000] by simp

text \<open>
  Claim C5. For a deadline that is not in the past (\<open>isPast\<close> decides that at its
  reading \<open>clock\<close>, taken after \<open>now\<close>), the result is not overdue, \<open>totalMinutes\<close>
  is the floor of the remaining milliseconds divided by 60000,
  \<open>days = totalMinutes div 1440\<close>, \<open>hours = (totalMinutes mod 1440) div 60\<close>,
  \<open>minutes = totalMinutes mod 60\<close> and \<open>seconds\<close> is the remaining whole seconds
  modulo 60; a deadline exactly \<open>N > 0\<close> whole minutes after \<open>now\<close> gives
  \<open>totalMinutes = N\<close> and \<open>days * 1440 + hours * 60 + minutes = N\<close>.
\<close>

theorem calculateTimeRemaining_remaining:
  assumes "now \<le> clock" and "\<not> deadlineDate < clock"
  shows "isOverdue (calculateTimeRemaining now clock deadlineDate) = False
    \<and> totalMinutes (calculateTimeRemaining now clock deadlineDate) = (deadlineDate - now) div 60000
    \<and> days (calculateTimeRemaining now clock deadlineDate)
        = totalMinutes (calculateTimeRemaining now clock deadlineDate) div 1440
    \<and> hours (calculateTimeRemaining now clock deadlineDate)
        = (totalMinutes (calculateTimeRemaining now clock deadlineDate) mod 1440) div 60
    \<and> minutes (calculateTimeRemaining now clock deadlineDate)
        = totalMinutes (calculateTimeRemaining now clock deadlineDate) mod 60
    \<and> seconds (calculateTimeRemaining now clock deadlineDate)
        = ((deadlineDate - now) div 1000) mod 60
    \<and> (\<forall>N>0. deadlineDate = now + N * 60000 \<longrightarrow>
          totalMinutes (calculateTimeRemaining now clock deadlineDate) = N
        \<and> days (calculateTimeRemaining now clock deadlineDate) * 1440
          + hours (calculateTimeRemaining now clock deadlineDate) * 60
          + minutes (calculateTimeRemaining now clock deadlineDate) = N)"
proof -
  let ?r = "calculateTimeRemaining now clock deadlineDate"
  let ?ms = "deadlineDate - now"
  from assms have ms: "0 \<le> ?ms" by simp
  from assms have np: "\<not> isPast clock deadlineDate" by (simp add: isPast_def)
  have tm: "totalMinutes ?r = ?ms div 60000"
    using np ms by (simp add: calculateTimeRemaining_def Let_def differenceInMinutes_def js_trunc_div_nonneg)
  have tm0: "0 \<le> ?ms div 60000" using ms by simp
  have ov: "isOverdue ?r = False"
    using np by (simp add: calculateTimeRemaining_def Let_def)
  have d: "days ?r = totalMinutes ?r div 1440"
    using np by (simp add: calculateTimeRemaining_def Let_def js_floor_div_def)
  have h: "hours ?r = (totalMinutes ?r mod 1440) div 60"
    using np ms tm0
    by (simp add: calculateTimeRemaining_def Let_def js_floor_div_def differenceInMinutes_def
        js_trunc_div_nonneg js_rem_nonneg)
  have m: "minutes ?r = totalMinutes ?r mod 60"
    using np ms tm0
    by (simp add: calculateTimeRemaining_def Let_def differenceInMinutes_def
        js_trunc_div_nonneg js_rem_nonneg)
  have s0: "0 \<le> ?ms div 1000" using ms by simp
  have s: "seconds ?r = (?ms div 1000) mod 60"
    using np ms s0
    by (simp add: calculateTimeRemaining_def Let_def differenceInSeconds_def
        js_trunc_div_nonneg js_rem_nonneg)
  have dec: "days ?r * 1440 + hours ?r * 60 + minutes ?r = totalMinutes ?r"
  proof -
    define t where "t = totalMinutes ?r"
    have "t mod 1440 mod 60 = t mod 60"
      by (rule mod_mod_cancel) simp
    then have "(t mod 1440) div 60 * 60 + t mod 60 = t mod 1440"
      by (metis div_mult_mod_eq)
    moreover have "t div 1440 * 1440 + t mod 1440 = t"
      by simp
    ultimately have "t div 1440 * 1440 + (t mod 1440) div 60 * 60 + t mod 60 = t"
      by linarith
    then show ?thesis
      unfolding d h m t_def [symmetric] .
  qed
  have n: "\<forall>N>0. deadlineDate = now + N * 60000 \<longrightarrow>
          totalMinutes ?r = N \<and> days ?r * 1440 + hours ?r * 60 + minutes ?r = N"
    using tm dec by auto
  from ov tm d h m s n show ?thesis by blast
qed

theorem calculateTimeRemaining_remaining_witness:
  "isOverdue (calculateTimeRemaining 0 5 90075000) = False
    \<and> totalMinutes (calculateTimeRemaining 0 5 90075000) = 1501
    \<and> days (calculateTimeRemaining 0 5 90075000) = 1
    \<and> hours (calculateTimeRemaining 0 5 90075000) = 1
    \<and> minutes (calculateTimeRemaining 0 5 90075000) = 1
    \<and> seconds (calculateTimeRemaining 0 5 90075000) = 15
    \<and> totalMinutes (calculateTimeRemaining 7 7 (7 + 1501 * 60000)) = 1501
    \<and> days (calculateTimeRemaining 7 7 (7 + 1501 * 60000)) * 1440
        + hours (calculateTimeRemaining 7 7 (7 + 1501 * 60000)) * 60
        + minutes (calculateTimeRemaining 7 7 (7 + 1501 * 60000)) = 1501"
  using calculateTimeRemaining_remaining [of 0 5 90075000]
    calculateTimeRemaining_remaining [of 7 7 "7 + 1501 * 60000"]
  by simp

text \<open>
  On every value that \<open>calculateTimeRemaining\<close> returns, the fields have one sign, and
  the policy of the specification and the code agree.
\<close>

lemma formatTimeRemaining_spec_on_results:
  "formatTimeRemaining (calculateTimeRemaining now clock deadlineDate)
     = formatTimeRemaining_spec (calculateTimeRemaining now clock deadlineDate)"
proof (cases "isPast clock deadlineDate")
  case True
  then show ?thesis
    by (simp add: calculateTimeRemaining_def formatTimeRemaining_def formatTimeRemaining_spec_def)
next
  case False
  define tm where "tm = differenceInMinutes deadlineDate now"
  have r1440: "(0 \<le> tm \<longrightarrow> 0 \<le> js_rem tm 1440) \<and> (tm \<le> 0 \<longrightarrow> js_rem tm 1440 \<le> 0)"
    by (auto simp: js_rem_def sgn_if mult_le_0_iff)
  have r60: "(0 \<le> tm \<longrightarrow> 0 \<le> js_rem tm 60) \<and> (tm \<le> 0 \<longrightarrow> js_rem tm 60 \<le> 0)"
    by (auto simp: js_rem_def sgn_if)
  have d: "(0 \<le> tm \<longrightarrow> 0 \<le> tm div 1440) \<and> (tm < 0 \<longrightarrow> tm div 1440 < 0)"
    by (auto simp: pos_imp_zdiv_neg_iff)
  have h: "(0 \<le> tm \<longrightarrow> 0 \<le> js_rem tm 1440 div 60) \<and> (tm \<le> 0 \<longrightarrow> js_rem tm 1440 div 60 \<le> 0)"
  proof (intro conjI impI)
    assume "0 \<le> tm"
    with r1440 show "0 \<le> js_rem tm 1440 div 60"
      by (simp add: pos_imp_zdiv_nonneg_iff)
  next
    assume "tm \<le> 0"
    with r1440 have "js_rem tm 1440 \<le> 0" by simp
    then have "js_rem tm 1440 div 60 \<le> 0 div 60"
      by (rule zdiv_mono1) simp
    then show "js_rem tm 1440 div 60 \<le> 0" by simp
  qed
  show ?thesis
    using False d h r60
    by (cases "0 \<le> tm")
      (auto simp: calculateTimeRemaining_def formatTimeRemaining_def formatTimeRemaining_spec_def
        Let_def js_floor_div_def tm_def [symmetric])
qed

lemma formatTimeRemaining_spec_nonneg:
  assumes "0 \<le> days t" and "0 \<le> hours t" and "0 \<le> minutes t"
  shows "formatTimeRemaining t = formatTimeRemaining_spec t"
  using assms by (auto simp: formatTimeRemaining_def formatTimeRemaining_spec_def)

text \<open>
  Claim C6. For every \<open>TimeRemaining\<close> value that \<open>calculateTimeRemaining\<close> returns,
  and for every value whose days, hours and minutes are not negative,
  \<open>formatTimeRemaining\<close> returns \<open>Overdue\<close> when the value is overdue; hours and
  minutes when \<open>days = 1\<close>; days and hours when \<open>days > 1\<close>; hours and minutes when
  \<open>days = 0\<close> and \<open>hours \<ge> 1\<close>; minutes and seconds when \<open>days = hours = 0\<close> and
  \<open>minutes \<ge> 1\<close>; the seconds alone in every other case; and never the empty string
  for a value that is not overdue.
\<close>

theorem formatTimeRemaining_policy:
  assumes "t = calculateTimeRemaining now clock deadlineDate
           \<or> (0 \<le> days t \<and> 0 \<le> hours t \<and> 0 \<le> minutes t)"
  shows "(isOverdue t \<longrightarrow> formatTimeRemaining t = ''Overdue'')
   \<and> (\<not> isOverdue t \<and> days t = 1 \<longrightarrow>
        formatTimeRemaining t = toString (hours t) @ ''h '' @ toString (minutes t) @ ''m'')
   \<and> (\<not> isOverdue t \<and> days t > 1 \<longrightarrow>
        formatTimeRemaining t = toString (days t) @ ''d '' @ toString (hours t) @ ''h'')
   \<and> (\<not> isOverdue t \<and> days t = 0 \<and> hours t \<ge> 1 \<longrightarrow>
        formatTimeRemaining t = toString (hours t) @ ''h '' @ toString (minutes t) @ ''m'')
   \<and> (\<not> isOverdue t \<and> days t = 0 \<and> hours t = 0 \<and> minutes t \<ge> 1 \<longrightarrow>
        formatTimeRemaining t = toString (minutes t) @ ''m '' @ toString (seconds t) @ ''s'')
   \<and> (\<not> isOverdue t \<and> days t \<noteq> 1 \<and> \<not> days t > 1 \<and> \<not> (days t = 0 \<and> hours t \<ge> 1)
        \<and> \<not> (days t = 0 \<and> hours t = 0 \<and> minutes t \<ge> 1) \<longrightarrow>
        formatTimeRemaining t = toString (seconds t) @ ''s'')
   \<and> (\<not> isOverdue t \<longrightarrow> formatTimeRemaining t \<noteq> [])"
proof -
  from assms have eq: "formatTimeRemaining t = formatTimeRemaining_spec t"
  proof
    assume "t = calculateTimeRemaining now clock deadlineDate"
    then show ?thesis
      by (simp add: formatTimeRemaining_spec_on_results)
  next
    assume "0 \<le> days t \<and> 0 \<le> hours t \<and> 0 \<le> minutes t"
    then show ?thesis
      by (simp add: formatTimeRemaining_spec_nonneg)
  qed
  have nonempty: "\<not> isOverdue t \<longrightarrow> formatTimeRemaining_spec t \<noteq> []"
    by (simp add: formatTimeRemaining_spec_def toString_not_Nil)
  have cases: "(isOverdue t \<longrightarrow> formatTimeRemaining_spec t = ''Overdue'')
   \<and> (\<not> isOverdue t \<and> days t = 1 \<longrightarrow>
        formatTimeRemaining_spec t = toString (hours t) @ ''h '' @ toString (minutes t) @ ''m'')
   \<and> (\<not> isOverdue t \<and> days t > 1 \<longrightarrow>
        formatTimeRemaining_spec t = toString (days t) @ ''d '' @ toString (hours t) @ ''h'')
   \<and> (\<not> isOverdue t \<and> days t = 0 \<and> hours t \<ge> 1 \<longrightarrow>
        formatTimeRemaining_spec t = toString (hours t) @ ''h '' @ toString (minutes t) @ ''m'')
   \<and> (\<not> isOverdue t \<and> days t = 0 \<and> hours t = 0 \<and> minutes t \<ge> 1 \<longrightarrow>
        formatTimeRemaining_spec t = toString (minutes t) @ ''m '' @ toString (seconds t) @ ''s'')
   \<and> (\<not> isOverdue t \<and> days t \<noteq> 1 \<and> \<not> days t > 1 \<and> \<not> (days t = 0 \<and> hours t \<ge> 1)
        \<and> \<not> (days t = 0 \<and> hours t = 0 \<and> minutes t \<ge> 1) \<longrightarrow>
        formatTimeRemaining_spec t = toString (seconds t) @ ''s'')"
    by (simp add: formatTimeRemaining_spec_def)
  from cases nonempty show ?thesis
    unfolding eq by blast
qed

theorem formatTimeRemaining_policy_witness:
  "formatTimeRemaining (calculateTimeRemaining 36000000 36000005 32400000) = ''Overdue''
   \<and> formatTimeRemaining (calculateTimeRemaining 0 5 90075000) = ''1h 1m''
   \<and> formatTimeRemaining (calculateTimeRemaining 0 5 273900000) = ''3d 4h''
   \<and> formatTimeRemaining (calculateTimeRemaining 0 5 14706000) = ''4h 5m''
   \<and> formatTimeRemaining (calculateTimeRemaining 0 5 1800000) = ''30m 0s''
   \<and> formatTimeRemaining (calculateTimeRemaining 0 5 42000) = ''42s''
   \<and> formatTimeRemaining \<lparr>days = 1, hours = 2, minutes = 0, seconds = 0,
        isOverdue = False, totalMinutes = 1560\<rparr> = ''2h 0m''
   \<and> formatTimeRemaining (calculateTimeRemaining 0 5 42000) \<noteq> []"
  using
    formatTimeRemaining_policy [of "calculateTimeRemaining 36000000 36000005 32400000"
      36000000 36000005 32400000]
    formatTimeRemaining_policy [of "calculateTimeRemaining 0 5 90075000" 0 5 90075000]
    formatTimeRemaining_policy [of "calculateTimeRemaining 0 5 273900000" 0 5 273900000]
    formatTimeRemaining_policy [of "calculateTimeRemaining 0 5 14706000" 0 5 14706000]
    formatTimeRemaining_policy [of "calculateTimeRemaining 0 5 1800000" 0 5 1800000]
    formatTimeRemaining_policy [of "calculateTimeRemaining 0 5 42000" 0 5 42000]
    formatTimeRemaining_policy [of "\<lparr>days = 1, hours = 2, minutes = 0, seconds = 0,
        isOverdue = False, totalMinutes = 1560\<rparr>" 0 0 0]
  by (simp add: calculateTimeRemaining_def isPast_def differenceInMinutes_def
      differenceInSeconds_def js_trunc_div_def js_floor_div_def js_rem_def
      toString_def string_of_nat.simps digit_def)

text \<open>
  Claim C7. \<open>getTimeUrgencyColor\<close> is a step function of \<open>totalMinutes\<close> and the
  overdue flag: overdue gives red; otherwise at most 60 minutes gives red, more than 60
  and at most 1440 orange, more than 1440 and at most 4320 yellow, more than 4320 green.
  So exactly 60 minutes is red and exactly 1440 minutes is orange.
\<close>

theorem getTimeUrgencyColor_tiers:
  "(isOverdue t \<longrightarrow> getTimeUrgencyColor t = ''text-red-500'')
   \<and> (\<not> isOverdue t \<and> totalMinutes t \<le> 60 \<longrightarrow> getTimeUrgencyColor t = ''text-red-500'')
   \<and> (\<not> isOverdue t \<and> 60 < totalMinutes t \<and> totalMinutes t \<le> 1440 \<longrightarrow>
        getTimeUrgencyColor t = ''text-orange-500'')
   \<and> (\<not> isOverdue t \<and> 1440 < totalMinutes t \<and> totalMinutes t \<le> 4320 \<longrightarrow>
        getTimeUrgencyColor t = ''text-yellow-600'')
   \<and> (\<not> isOverdue t \<and> 4320 < totalMinutes t \<longrightarrow> getTimeUrgencyColor t = ''text-green-600'')"
  by (simp add: getTimeUrgencyColor_def)

theorem getTimeUrgencyColor_tiers_witness:
  "getTimeUrgencyColor \<lparr>days = 0, hours = 0, minutes = 0, seconds = 0,
      isOverdue = True, totalMinutes = 0\<rparr> = ''text-red-500''
   \<and> getTimeUrgencyColor \<lparr>days = 0, hours = 1, minutes = 0, seconds = 0,
      isOverdue = False, totalMinutes = 60\<rparr> = ''text-red-500''
   \<and> getTimeUrgencyColor \<lparr>days = 0, hours = 1, minutes = 1, seconds = 0,
      isOverdue = False, totalMinutes = 61\<rparr> = ''text-orange-500''
   \<and> getTimeUrgencyColor \<lparr>days = 1, hours = 0, minutes = 0, seconds = 0,
      isOverdue = False, totalMinutes = 1440\<rparr> = ''text-orange-500''
   \<and> getTimeUrgencyColor \<lparr>days = 1, hours = 0, minutes = 1, seconds = 0,
      isOverdue = False, totalMinutes = 1441\<rparr> = ''text-yellow-600''
   \<and> getTimeUrgencyColor \<lparr>days = 3, hours = 0, minutes = 0, seconds = 0,
      isOverdue = False, totalMinutes = 4320\<rparr> = ''text-yellow-600''
   \<and> getTimeUrgencyColor \<lparr>days = 3, hours = 0, minutes = 1, seconds = 0,
      isOverdue = False, totalMinutes = 4321\<rparr> = ''text-green-600''"
  using
    getTimeUrgencyColor_tiers [of "\<lparr>days = 0, hours = 0, minutes = 0, seconds = 0,
      isOverdue = True, totalMinutes = 0\<rparr>"]
    getTimeUrgencyColor_tiers [of "\<lparr>days = 0, hours = 1, minutes = 0, seconds = 0,
      isOverdue = False, totalMinutes = 60\<rparr>"]
    getTimeUrgencyColor_tiers [of "\<lparr>days = 0, hours = 1, minutes = 1, seconds = 0,
      isOverdue = False, totalMinutes = 61\<rparr>"]
    getTimeUrgencyColor_tiers [of "\<lparr>days = 1, hours = 0, minutes = 0, seconds = 0,
      isOverdue = False, totalMinutes = 1440\<rparr>"]
    getTimeUrgencyColor_tiers [of "\<lparr>days = 1, hours = 0, minutes = 1, seconds = 0,
      isOverdue = False, totalMinutes = 1441\<rparr>"]
    getTimeUrgencyColor_tiers [of "\<lparr>days = 3, hours = 0, minutes = 0, seconds = 0,
      isOverdue = False, totalMinutes = 4320\<rparr>"]
    getTimeUrgencyColor_tiers [of "\<lparr>days = 3, hours = 0, minutes = 1, seconds = 0,
      isOverdue = False, totalMinutes = 4321\<rparr>"]
  by simp

section \<open>Properties of the completion mutation\<close>

lemma find_habit_None:
  "(find (\<lambda>item. habitId item = h) old = None) = (\<not> (\<exists>item\<in>set old. habitId item = h))"
  by (auto simp: find_None_iff)

lemma optimisticUpdate_Some:
  "optimisticUpdate t h c (Some old) =
     Some (map (\<lambda>item. if habitId item = h
                  then item\<lparr>completion := Some (spread_completed (completion item) c)\<rparr>
                  else item) old
           @ (if find (\<lambda>item. habitId item = h) old = None
              then [\<lparr>habitId = h,
                     completion = Some \<lparr>id_c = None, habitId_c = None, date = Some t,
                       completed = c, value_c = None, notes_c = None, createdAt = None\<rparr>\<rparr>]
              else []))"
  by (simp add: optimisticUpdate_def Let_def)

lemma onMutate_context:
  "previousCompletions (snd (snd (onMutate t h c cache))) = cache t"
  by (simp add: onMutate_def getQueryData_def Let_def)

lemma onMutate_actions:
  "fst (snd (onMutate t h c cache)) = CancelQueries t # (if c then [Confetti] else [])"
  by (simp add: onMutate_def Let_def triggerConfetti_def)

lemma onMutate_cache:
  "cache t = Some xs \<Longrightarrow>
     fst (onMutate t h c cache) = cache(t := optimisticUpdate t h c (Some xs))"
  by (simp add: onMutate_def Let_def setQueryData_updater_def optimisticUpdate_Some)

lemma mutate_cache_Rejected:
  "cache t = Some xs \<Longrightarrow>
     fst (mutate t h c Rejected inflight cache) = (inflight (fst (onMutate t h c cache)))(t := Some xs)"
  by (simp add: mutate_def Let_def split_beta onError_def setQueryData_def onMutate_context)

lemma mutate_actions:
  "snd (mutate t h c r inflight cache) =
     CancelQueries t # (if c then [Confetti] else []) @ [mutationFn t h c] @ onSettled t"
  by (simp add: mutate_def Let_def split_beta onMutate_actions)

text \<open>
  Claim C2. Applied to a cached list, the optimistic update returns, when the list has
  an item of the habit: a list of the same length in which every item of that habit keeps
  its \<open>habitId\<close> and has a completion with \<open>completed\<close> set to the desired flag and
  every other field as before (a completion that was undefined has only \<open>completed\<close>),
  and every other item is as before; and, when the list has no item of the habit: the list
  with one new item appended, whose completion has the desired flag and today's date.
\<close>

theorem optimisticUpdate_result:
  "((\<exists>item\<in>set old. habitId item = h) \<longrightarrow>
      (\<exists>new. optimisticUpdate t h c (Some old) = Some new
         \<and> length new = length old
         \<and> (\<forall>i<length old.
              (habitId (old ! i) = h \<longrightarrow>
                 habitId (new ! i) = h
               \<and> completion (new ! i) =
                   Some (case completion (old ! i) of
                           Some previous \<Rightarrow> previous\<lparr>completed := c\<rparr>
                         | None \<Rightarrow> \<lparr>id_c = None, habitId_c = None, date = None,
                                     completed = c, value_c = None, notes_c = None,
                                     createdAt = None\<rparr>))
            \<and> (habitId (old ! i) \<noteq> h \<longrightarrow> new ! i = old ! i))))
   \<and> (\<not> (\<exists>item\<in>set old. habitId item = h) \<longrightarrow>
        optimisticUpdate t h c (Some old) =
          Some (old @ [\<lparr>habitId = h,
                  completion = Some \<lparr>id_c = None, habitId_c = None, date = Some t,
                    completed = c, value_c = None, notes_c = None, createdAt = None\<rparr>\<rparr>]))"
proof (intro conjI impI)
  assume ex: "\<exists>item\<in>set old. habitId item = h"
  then have "find (\<lambda>item. habitId item = h) old \<noteq> None"
    by (simp add: find_habit_None)
  then have "optimisticUpdate t h c (Some old) =
      Some (map (\<lambda>item. if habitId item = h
                   then item\<lparr>completion := Some (spread_completed (completion item) c)\<rparr>
                   else item) old)"
    by (auto simp: optimisticUpdate_def Let_def)
  then show "\<exists>new. optimisticUpdate t h c (Some old) = Some new
         \<and> length new = length old
         \<and> (\<forall>i<length old.
              (habitId (old ! i) = h \<longrightarrow>
                 habitId (new ! i) = h
               \<and> completion (new ! i) =
                   Some (case completion (old ! i) of
                           Some previous \<Rightarrow> previous\<lparr>completed := c\<rparr>
                         | None \<Rightarrow> \<lparr>id_c = None, habitId_c = None, date = None,
                                     completed = c, value_c = None, notes_c = None,
                                     createdAt = None\<rparr>))
            \<and> (habitId (old ! i) \<noteq> h \<longrightarrow> new ! i = old ! i))"
    by (simp add: spread_completed_def)
next
  assume nex: "\<not> (\<exists>item\<in>set old. habitId item = h)"
  then have f: "find (\<lambda>item. habitId item = h) old = None"
    by (simp add: find_habit_None)
  from nex have "map (\<lambda>item. if habitId item = h
                   then item\<lparr>completion := Some (spread_completed (completion item) c)\<rparr>
                   else item) old = old"
    by (induction old) auto
  with f show "optimisticUpdate t h c (Some old) =
          Some (old @ [\<lparr>habitId = h,
                  completion = Some \<lparr>id_c = None, habitId_c = None, date = Some t,
                    completed = c, value_c = None, notes_c = None, createdAt = None\<rparr>\<rparr>])"
    by (simp add: optimisticUpdate_def Let_def)
qed

theorem optimisticUpdate_result_witness:
  "(\<exists>item\<in>set [\<lparr>habitId = ''a'', completion = None\<rparr>,
        \<lparr>habitId = ''b'', completion = Some \<lparr>id_c = Some ''c1'', habitId_c = Some ''b'',
           date = Some ''2024-01-02'', completed = False, value_c = Some 3, notes_c = None,
           createdAt = Some ''2024-01-02T04:30:00.000Z''\<rparr>\<rparr>]. habitId item = ''b'')
   \<and> optimisticUpdate ''2024-01-02'' ''b'' True
        (Some [\<lparr>habitId = ''a'', completion = None\<rparr>,
          \<lparr>habitId = ''b'', completion = Some \<lparr>id_c = Some ''c1'', habitId_c = Some ''b'',
             date = Some ''2024-01-02'', completed = False, value_c = Some 3, notes_c = None,
             createdAt = Some ''2024-01-02T04:30:00.000Z''\<rparr>\<rparr>])
      = Some [\<lparr>habitId = ''a'', completion = None\<rparr>,
          \<lparr>habitId = ''b'', completion = Some \<lparr>id_c = Some ''c1'', habitId_c = Some ''b'',
             date = Some ''2024-01-02'', completed = True, value_c = Some 3, notes_c = None,
             createdAt = Some ''2024-01-02T04:30:00.000Z''\<rparr>\<rparr>]
   \<and> optimisticUpdate ''2024-01-02'' ''a'' True (Some [\<lparr>habitId = ''a'', completion = None\<rparr>])
      = Some [\<lparr>habitId = ''a'', completion = Some \<lparr>id_c = None, habitId_c = None,
             date = None, completed = True, value_c = None, notes_c = None,
             createdAt = None\<rparr>\<rparr>]
   \<and> \<not> (\<exists>item\<in>set [\<lparr>habitId = ''a'', completion = None\<rparr>]. habitId item = ''z'')
   \<and> optimisticUpdate ''2024-01-02'' ''z'' False (Some [\<lparr>habitId = ''a'', completion = None\<rparr>])
      = Some [\<lparr>habitId = ''a'', completion = None\<rparr>,
          \<lparr>habitId = ''z'', completion = Some \<lparr>id_c = None, habitId_c = None,
             date = Some ''2024-01-02'', completed = False, value_c = None, notes_c = None,
             createdAt = None\<rparr>\<rparr>]"
  using
    optimisticUpdate_result [of "[\<lparr>habitId = ''a'', completion = None\<rparr>,
        \<lparr>habitId = ''b'', completion = Some \<lparr>id_c = Some ''c1'', habitId_c = Some ''b'',
           date = Some ''2024-01-02'', completed = False, value_c = Some 3, notes_c = None,
           createdAt = Some ''2024-01-02T04:30:00.000Z''\<rparr>\<rparr>]" "''b''" "''2024-01-02''" True]
    optimisticUpdate_result [of "[\<lparr>habitId = ''a'', completion = None\<rparr>]" "''a''"
      "''2024-01-02''" True]
    optimisticUpdate_result [of "[\<lparr>habitId = ''a'', completion = None\<rparr>]" "''z''"
      "''2024-01-02''" False]
  by (simp add: optimisticUpdate_def spread_completed_def)

text \<open>
  Claim C10. The optimistic update leaves alone what it is not about: on an undefined
  cache entry it returns undefined, and \<open>onMutate\<close> leaves the whole cache as it was;
  on a list, the result is a list at least as long in which every item of another habit
  stands unchanged at its position.
\<close>

theorem optimisticUpdate_frame:
  "optimisticUpdate t h c None = None
   \<and> (cache t = None \<longrightarrow> fst (onMutate t h c cache) = cache)
   \<and> (\<exists>new. optimisticUpdate t h c (Some old) = Some new
         \<and> length old \<le> length new
         \<and> (\<forall>i<length old. habitId (old ! i) \<noteq> h \<longrightarrow> new ! i = old ! i))"
proof (intro conjI impI)
  show "optimisticUpdate t h c None = None"
    by (simp add: optimisticUpdate_def)
next
  assume "cache t = None"
  then show "fst (onMutate t h c cache) = cache"
    by (simp add: onMutate_def setQueryData_updater_def optimisticUpdate_def Let_def)
next
  show "\<exists>new. optimisticUpdate t h c (Some old) = Some new
         \<and> length old \<le> length new
         \<and> (\<forall>i<length old. habitId (old ! i) \<noteq> h \<longrightarrow> new ! i = old ! i)"
    by (simp add: optimisticUpdate_Some nth_append)
qed

theorem optimisticUpdate_frame_witness:
  "(\<lambda>key. None :: item list option) ''2024-01-02'' = None
   \<and> fst (onMutate ''2024-01-02'' ''a'' True (\<lambda>key. None)) = (\<lambda>key. None)
   \<and> (0::nat) < length [\<lparr>habitId = ''b'', completion = None\<rparr>,
        \<lparr>habitId = ''a'', completion = None\<rparr>]
   \<and> habitId ([\<lparr>habitId = ''b'', completion = None\<rparr>,
        \<lparr>habitId = ''a'', completion = None\<rparr>] ! 0) \<noteq> ''a''
   \<and> optimisticUpdate ''2024-01-02'' ''a'' True
        (Some [\<lparr>habitId = ''b'', completion = None\<rparr>, \<lparr>habitId = ''a'', completion = None\<rparr>])
      = Some [\<lparr>habitId = ''b'', completion = None\<rparr>,
          \<lparr>habitId = ''a'', completion = Some \<lparr>id_c = None, habitId_c = None,
             date = None, completed = True, value_c = None, notes_c = None,
             createdAt = None\<rparr>\<rparr>]"
  using optimisticUpdate_frame [of "''2024-01-02''" "''a''" True "\<lambda>key. None"
      "[\<lparr>habitId = ''b'', completion = None\<rparr>, \<lparr>habitId = ''a'', completion = None\<rparr>]"]
  by (simp add: optimisticUpdate_def spread_completed_def)

text \<open>
  Claim C1. When the cache holds a list for today and the request is rejected, the cache
  entry after \<open>onError\<close> is that list, the snapshot \<open>onMutate\<close> took before its
  write, whatever was written to the cache while the request was under way; and when
  nothing else wrote to the cache, the whole cache is as it was before the toggle.
\<close>

theorem rollback_restores_snapshot:
  assumes "cache t = Some xs"
  shows "fst (mutate t h c Rejected inflight cache) t = Some xs
       \<and> fst (mutate t h c Rejected (\<lambda>cache'. cache') cache) = cache"
proof
  show "fst (mutate t h c Rejected inflight cache) t = Some xs"
    using assms by (simp add: mutate_cache_Rejected)
next
  have "fst (mutate t h c Rejected (\<lambda>cache'. cache') cache)
      = (cache(t := optimisticUpdate t h c (Some xs)))(t := Some xs)"
    using assms by (simp add: mutate_cache_Rejected onMutate_cache)
  also have "\<dots> = cache"
    using assms by (simp add: fun_upd_idem)
  finally show "fst (mutate t h c Rejected (\<lambda>cache'. cache') cache) = cache" .
qed

theorem rollback_restores_snapshot_witness:
  "((\<lambda>key. None)(''2024-01-02'' := Some [\<lparr>habitId = ''h1'', completion = None\<rparr>]))
      ''2024-01-02'' = Some [\<lparr>habitId = ''h1'', completion = None\<rparr>]
   \<and> fst (mutate ''2024-01-02'' ''h1'' True Rejected
          (\<lambda>cache'. cache'(''2024-01-02'' := Some []))
          ((\<lambda>key. None)(''2024-01-02'' := Some [\<lparr>habitId = ''h1'', completion = None\<rparr>])))
        ''2024-01-02'' = Some [\<lparr>habitId = ''h1'', completion = None\<rparr>]
   \<and> fst (mutate ''2024-01-02'' ''h1'' True Rejected (\<lambda>cache'. cache')
          ((\<lambda>key. None)(''2024-01-02'' := Some [\<lparr>habitId = ''h1'', completion = None\<rparr>])))
      = (\<lambda>key. None)(''2024-01-02'' := Some [\<lparr>habitId = ''h1'', completion = None\<rparr>])"
  using
    rollback_restores_snapshot [of
      "(\<lambda>key. None)(''2024-01-02'' := Some [\<lparr>habitId = ''h1'', completion = None\<rparr>])"
      "''2024-01-02''" "[\<lparr>habitId = ''h1'', completion = None\<rparr>]" "''h1''" True
      "\<lambda>cache'. cache'(''2024-01-02'' := Some [])"]
  by simp

text \<open>
  Claim C9. When the desired flag is true, the confetti fires in \<open>onMutate\<close>, before
  the request is sent, whether the request is later resolved or rejected: it is among the
  actions that precede the request. So it fires also in a run whose request is rejected
  and whose cache entry is rolled back. When the flag is false it does not fire at all.
\<close>

theorem confetti_fires_with_optimistic_write:
  "(c \<longrightarrow> Confetti \<in> set (takeWhile (\<lambda>a. \<not> isRequest a) (snd (mutate t h c r inflight cache))))
   \<and> dropWhile (\<lambda>a. \<not> isRequest a) (snd (mutate t h c r inflight cache))
       = mutationFn t h c # onSettled t
   \<and> (c \<and> cache t = Some xs \<longrightarrow>
        Confetti \<in> set (snd (mutate t h c Rejected inflight cache))
      \<and> fst (mutate t h c Rejected inflight cache) t = Some xs)
   \<and> (\<not> c \<longrightarrow> Confetti \<notin> set (snd (mutate t h c r inflight cache)))"
proof (intro conjI impI)
  assume "c"
  then show "Confetti \<in> set (takeWhile (\<lambda>a. \<not> isRequest a) (snd (mutate t h c r inflight cache)))"
    by (simp add: mutate_actions mutationFn_def)
next
  show "dropWhile (\<lambda>a. \<not> isRequest a) (snd (mutate t h c r inflight cache))
       = mutationFn t h c # onSettled t"
    by (simp add: mutate_actions mutationFn_def)
next
  assume "c \<and> cache t = Some xs"
  then show "Confetti \<in> set (snd (mutate t h c Rejected inflight cache))"
    by (simp add: mutate_actions)
next
  assume "c \<and> cache t = Some xs"
  then show "fst (mutate t h c Rejected inflight cache) t = Some xs"
    by (simp add: mutate_cache_Rejected)
next
  assume "\<not> c"
  then show "Confetti \<notin> set (snd (mutate t h c r inflight cache))"
    by (simp add: mutate_actions mutationFn_def onSettled_def)
qed

theorem confetti_fires_with_optimistic_write_witness:
  "Confetti \<in> set (takeWhile (\<lambda>a. \<not> isRequest a)
       (snd (mutate ''2024-01-02'' ''h1'' True Rejected (\<lambda>cache'. cache')
          ((\<lambda>key. None)(''2024-01-02'' := Some [])))))
   \<and> fst (mutate ''2024-01-02'' ''h1'' True Rejected (\<lambda>cache'. cache')
          ((\<lambda>key. None)(''2024-01-02'' := Some []))) ''2024-01-02'' = Some []
   \<and> Confetti \<notin> set (snd (mutate ''2024-01-02'' ''h1'' False Resolved (\<lambda>cache'. cache')
          ((\<lambda>key. None)(''2024-01-02'' := Some []))))"
  using
    confetti_fires_with_optimistic_write [of True "''2024-01-02''" "''h1''" Rejected
      "\<lambda>cache'. cache'" "(\<lambda>key. None)(''2024-01-02'' := Some [])" "[]"]
    confetti_fires_with_optimistic_write [of False "''2024-01-02''" "''h1''" Resolved
      "\<lambda>cache'. cache'" "(\<lambda>key. None)(''2024-01-02'' := Some [])" "[]"]
  by simp

text \<open>
  Claim C3 reads today as the client's local calendar date. The page takes the date
  from \<open>toISOString\<close>, which is the date in UTC. At 2024-01-02T04:30:00Z, which is
  23:30 on 1 January in New York (offset 300 minutes), the date sent with the request and
  stored in an appended item is 2 January, while the local date, which \<open>HabitCard\<close>
  computes, is 1 January.
\<close>

theorem today_is_utc_date:
  "today 1704169800000 = ''2024-01-02''
   \<and> HabitCard_today 1704169800000 300 = ''2024-01-01''
   \<and> mutationFn (today 1704169800000) ''h1'' True = CompleteHabit ''h1'' ''2024-01-02'' True
   \<and> optimisticUpdate (today 1704169800000) ''h1'' True (Some []) =
       Some [\<lparr>habitId = ''h1'',
              completion = Some \<lparr>id_c = None, habitId_c = None, date = Some ''2024-01-02'',
                completed = True, value_c = None, notes_c = None, createdAt = None\<rparr>\<rparr>]"
proof -
  have utc: "today 1704169800000 = ''2024-01-02''"
    by code_simp
  have local: "HabitCard_today 1704169800000 300 = ''2024-01-01''"
    by code_simp
  show ?thesis
    by (simp add: utc local mutationFn_def optimisticUpdate_def)
qed

section \<open>Properties of the API client\<close>

text \<open>
  Claim C8. For a response with status 401 or 403, \<open>request\<close> throws an error and the
  client it leaves behind is \<open>removeToken\<close> of the client before: the token in memory
  is gone and the storage, where it can be accessed, holds no \<open>auth_token\<close>. For every
  other status outside 200 to 299, \<open>request\<close> throws and leaves the client, token and
  storage, as it was.
\<close>

theorem request_removes_token_on_401_403:
  assumes "fetch (request_config c endpoint options) = Some response"
  shows "((status response = 401 \<or> status response = 403) \<longrightarrow>
            fst (request c fetch endpoint options) = removeToken c
          \<and> token (fst (request c fetch endpoint options)) = None
          \<and> (\<forall>items. localStorage (fst (request c fetch endpoint options)) = Some items
                \<longrightarrow> items ''auth_token'' = None)
          \<and> (\<exists>m. snd (request c fetch endpoint options) = Inl (Error m)))
       \<and> (\<not> ok response \<and> status response \<noteq> 401 \<and> status response \<noteq> 403 \<longrightarrow>
            fst (request c fetch endpoint options) = c
          \<and> (\<exists>m. snd (request c fetch endpoint options) = Inl (Error m)))"
  using assms
  by (auto simp: request_def Let_def ok_def removeToken_def split: option.splits)

theorem request_removes_token_on_401_403_witness:
  "token (fst (request
       \<lparr>baseUrl = ''http://localhost:3000/api'', token = Some ''abc'',
         localStorage = Some [''auth_token'' \<mapsto> ''abc'']\<rparr>
       (\<lambda>r. Some \<lparr>status = 401, json = Some \<lparr>message = Some ''Unauthorized'',
             content = None :: unit option\<rparr>\<rparr>)
       ''/auth/me'' \<lparr>method_o = None, headers_o = None, body_o = None\<rparr>)) = None
   \<and> (case localStorage (fst (request
       \<lparr>baseUrl = ''http://localhost:3000/api'', token = Some ''abc'',
         localStorage = Some [''auth_token'' \<mapsto> ''abc'']\<rparr>
       (\<lambda>r. Some \<lparr>status = 401, json = Some \<lparr>message = Some ''Unauthorized'',
             content = None :: unit option\<rparr>\<rparr>)
       ''/auth/me'' \<lparr>method_o = None, headers_o = None, body_o = None\<rparr>)) of
         None \<Rightarrow> None | Some items \<Rightarrow> items ''auth_token'') = None
   \<and> snd (request
       \<lparr>baseUrl = ''http://localhost:3000/api'', token = Some ''abc'',
         localStorage = Some [''auth_token'' \<mapsto> ''abc'']\<rparr>
       (\<lambda>r. Some \<lparr>status = 401, json = Some \<lparr>message = Some ''Unauthorized'',
             content = None :: unit option\<rparr>\<rparr>)
       ''/auth/me'' \<lparr>method_o = None, headers_o = None, body_o = None\<rparr>)
      = Inl (Error ''Unauthorized'')
   \<and> request
       \<lparr>baseUrl = ''http://localhost:3000/api'', token = Some ''abc'',
         localStorage = Some [''auth_token'' \<mapsto> ''abc'']\<rparr>
       (\<lambda>r. Some \<lparr>status = 500, json = (None :: unit json_data option)\<rparr>)
       ''/auth/me'' \<lparr>method_o = None, headers_o = None, body_o = None\<rparr>
      = (\<lparr>baseUrl = ''http://localhost:3000/api'', token = Some ''abc'',
          localStorage = Some [''auth_token'' \<mapsto> ''abc'']\<rparr>, Inl (Error ''Server error''))"
  using
    request_removes_token_on_401_403 [of
       "\<lambda>r. Some \<lparr>status = 401, json = Some \<lparr>message = Some ''Unauthorized'',
             content = None :: unit option\<rparr>\<rparr>"
       "\<lparr>baseUrl = ''http://localhost:3000/api'', token = Some ''abc'',
         localStorage = Some [''auth_token'' \<mapsto> ''abc'']\<rparr>"
       "''/auth/me''" "\<lparr>method_o = None, headers_o = None, body_o = None\<rparr>"
       "\<lparr>status = 401, json = Some \<lparr>message = Some ''Unauthorized'',
             content = None :: unit option\<rparr>\<rparr>"]
    request_removes_token_on_401_403 [of
       "\<lambda>r. Some \<lparr>status = 500, json = (None :: unit json_data option)\<rparr>"
       "\<lparr>baseUrl = ''http://localhost:3000/api'', token = Some ''abc'',
         localStorage = Some [''auth_token'' \<mapsto> ''abc'']\<rparr>"
       "''/auth/me''" "\<lparr>method_o = None, headers_o = None, body_o = None\<rparr>"
       "\<lparr>status = 500, json = (None :: unit json_data option)\<rparr>"]
  by (simp add: request_def ok_def removeToken_def)

end
